theory Spec2Isabelle
  imports Main
begin

section \<open>Data model of \<open>main.go\<close>\<close>

text \<open>
  A Go \<open>error\<close> value is modelled by its message (\<open>err.Error()\<close>); a nil error is
  \<open>None\<close> of \<open>error option\<close>.  A Go pointer is an \<open>option\<close>: \<open>None\<close> is nil.
  Strings and byte slices are \<open>string\<close> (lists of 8-bit characters).
\<close>

datatype error = Error string

fun ErrorStr :: "error \<Rightarrow> string" where
  "ErrorStr (Error m) = m"

text \<open>A run-time panic of the Go runtime.\<close>

datatype panic = NilPointerDereference | NegativeWaitGroupCounter

text \<open>Handles of the SSH library: a parsed key, a client connection, a command channel.\<close>

type_synonym signer = nat
type_synonym client = nat
type_synonym sshsession = nat

text \<open>\<open>type Dest struct { Host string `json:"host"`; User string `json:"user"` }\<close>\<close>

record Dest =
  Host :: string
  User :: string

text \<open>\<open>ssh.ClientConfig\<close> as \<open>NewSession\<close> fills it: the user, and one public-key
  authentication method; the host key callback is always \<open>InsecureIgnoreHostKey\<close>.\<close>

record ClientConfig =
  cfgUser :: string
  cfgAuth :: "signer list"

text \<open>\<open>type Session struct { config; conn; session; StdinPipe }\<close>, every field a pointer
  or an interface, so every field may be nil.\<close>

record Session =
  config :: "ClientConfig option"
  conn :: "client option"
  session :: "sshsession option"
  StdinPipe :: "unit option"

text \<open>A JSON value; the members of an object in the order of the text.\<close>

datatype json =
    JNull
  | JBool bool
  | JNumber string
  | JString string
  | JArray "json list"
  | JObject "(string \<times> json) list"

text \<open>The command line after \<open>flag.Parse()\<close>: the four flag variables, the positional
  arguments \<open>flag.Args()\<close>, and \<open>os.Args[0]\<close>.\<close>

record flags =
  help_flag :: bool
  quiet_flag :: bool
  privateKey_flag :: string
  port_flag :: string
  args :: "string list"
  progName :: string

definition defaultPort :: string where
  "defaultPort = ''22''"

text \<open>How the process ends: \<open>os.Exit\<close> or the return of \<open>main\<close>, an unrecovered panic of
  a goroutine, or the runtime finding every goroutine blocked.\<close>

datatype outcome = Exit nat | Crash panic | Deadlock

subsection \<open>The environment\<close>

text \<open>
  What the operating system, the network and the libraries answer.  These are not code
  of the repository, so they are parameters of the model:
  \<^item> \<open>fs\<close>: the contents of a file, or the error of opening or reading it
    (\<open>os.Open\<close>, \<open>ioutil.ReadFile\<close>);
  \<^item> \<open>syntaxErrorText\<close>: the wording of the \<open>SyntaxError\<close> that \<open>encoding/json\<close> gives for
    a text (whether a text has a syntax error is modelled below, not taken from here);
  \<^item> \<open>homeDir\<close>: \<open>homedir.Dir()\<close>; \<open>filepathJoin\<close>: \<open>filepath.Join\<close>;
    \<open>flagDefaults\<close>: the text \<open>flag.PrintDefaults()\<close> prints;
  \<^item> \<open>parsePrivateKey\<close>: \<open>ssh.ParsePrivateKey\<close>;
  \<^item> \<open>dial\<close>: \<open>ssh.Dial "tcp" addr config\<close>;
  \<^item> \<open>newSession\<close>: \<open>(*ssh.Client).NewSession\<close>;
  \<^item> \<open>sessionOutput\<close>: \<open>(*ssh.Session).Output cmd\<close>, which returns the bytes collected from
    the remote standard output together with the error, if any.

  Within one run the same question gets the same answer.  A file that opens and then
  cannot be read counts as a file that cannot be opened: \<open>main\<close> treats both alike.
\<close>

record world =
  fs :: "string \<Rightarrow> error + string"
  syntaxErrorText :: "string \<Rightarrow> string"
  homeDir :: "error + string"
  filepathJoin :: "string list \<Rightarrow> string"
  flagDefaults :: string
  parsePrivateKey :: "string \<Rightarrow> error + signer"
  dial :: "string \<Rightarrow> ClientConfig \<Rightarrow> error + client"
  newSession :: "client \<Rightarrow> error + sshsession"
  sessionOutput :: "sshsession \<Rightarrow> string \<Rightarrow> string \<times> error option"

subsection \<open>The state of a run\<close>

text \<open>The calls made to the outside, in order.\<close>

datatype event =
    EvReadFile string
  | EvDial string string
  | EvNewSession client
  | EvOutput sshsession string
  | EvCloseSession sshsession
  | EvCloseConn client

text \<open>The two output streams, the calls made so far, and the counter of the
  \<open>sync.WaitGroup\<close>.\<close>

record state =
  stdout :: string
  stderr :: string
  trace :: "event list"
  wg :: int

text \<open>The newline character, \<open>\n\<close> in the format strings of the source.\<close>

definition nl :: string where
  "nl = [CHR 0x0A]"

definition init_state :: state where
  "init_state = \<lparr>stdout = [], stderr = [], trace = [], wg = 0\<rparr>"

definition log :: "event \<Rightarrow> state \<Rightarrow> state" where
  "log e st = st\<lparr>trace := trace st @ [e]\<rparr>"

definition printOut :: "string \<Rightarrow> state \<Rightarrow> state" where
  "printOut s st = st\<lparr>stdout := stdout st @ s\<rparr>"

definition printErr :: "string \<Rightarrow> state \<Rightarrow> state" where
  "printErr s st = st\<lparr>stderr := stderr st @ s\<rparr>"

section \<open>Formatting with no operands\<close>

text \<open>
  \<open>call\<close> passes the bytes of the remote output to \<open>fmt.Sprintf\<close> as the format string,
  with no operands.  This section follows \<open>doPrintf\<close> of the Go standard library for that
  case (\<open>len(a) = 0\<close>): text outside a verb is copied, \<open>%%\<close> gives \<open>%\<close>, and every other
  verb gives one of the library's error markers, since no operand is there to print.
  The position \<open>i\<close> in the format is kept as the part of the format that is left.
\<close>

text \<open>The flag characters skipped after \<open>%\<close>.\<close>

definition isFlag :: "char \<Rightarrow> bool" where
  "isFlag c = (c \<in> set ''#0+- '')"

definition isDigit :: "char \<Rightarrow> bool" where
  "isDigit c = (48 \<le> (of_char c :: nat) \<and> (of_char c :: nat) \<le> 57)"

text \<open>\<open>parsenum\<close>: a decimal number; a number that grows beyond \<open>tooLarge\<close> makes it give
  up and move to the end of the format.\<close>

definition tooLarge :: "int \<Rightarrow> bool" where
  "tooLarge x = (x > 1000000 \<or> x < - 1000000)"

fun parsenum :: "int \<Rightarrow> bool \<Rightarrow> string \<Rightarrow> int \<times> bool \<times> string" where
  "parsenum num isnum [] = (num, isnum, [])"
| "parsenum num isnum (c # cs) =
     (if isDigit c then
        (if tooLarge num then (0, False, [])
         else parsenum (num * 10 + (of_char c - 48)) True cs)
      else (num, isnum, c # cs))"

text \<open>\<open>parseArgNumber\<close>: an explicit operand index \<open>[n]\<close>; the result is the index, the
  number of bytes to skip, and whether the index is well formed.\<close>

definition parseArgNumber :: "string \<Rightarrow> int \<times> nat \<times> bool" where
  "parseArgNumber format =
     (if length format < 3 then (0, 1, False)
      else let body = takeWhile (\<lambda>c. c \<noteq> CHR '']'') (tl format);
               i = Suc (length body)
           in if i < length format then
                (case parsenum 0 False body of
                   (width, ok, rest) \<Rightarrow>
                     if \<not> ok \<or> rest \<noteq> [] then (0, i + 1, False)
                     else (width - 1, i + 1, True))
              else (0, 1, False))"

text \<open>\<open>argNumber\<close> with no operands: an index can never be in range, so finding a
  bracket always clears \<open>goodArgNum\<close>.  Result: what is left, \<open>found\<close>, \<open>goodArgNum\<close>.\<close>

definition argNumber :: "bool \<Rightarrow> string \<Rightarrow> string \<times> bool \<times> bool" where
  "argNumber goodArgNum s =
     (if s = [] \<or> hd s \<noteq> CHR ''['' then (s, False, goodArgNum)
      else case parseArgNumber s of
             (index, wid, ok) \<Rightarrow> (drop wid s, ok, False))"

text \<open>\<open>utf8.DecodeRuneInString\<close> followed by \<open>WriteRune\<close>: the bytes written for the
  rune that starts the string, and the number of bytes read.  An invalid encoding reads
  one byte and writes U+FFFD.\<close>

definition inRange :: "nat \<Rightarrow> nat \<Rightarrow> char \<Rightarrow> bool" where
  "inRange lo hi c = (lo \<le> of_char c \<and> (of_char c :: nat) \<le> hi)"

definition RuneError :: string where
  "RuneError = [char_of (0xEF::nat), char_of (0xBF::nat), char_of (0xBD::nat)]"

fun DecodeRune :: "string \<Rightarrow> string \<times> nat" where
  "DecodeRune [] = (RuneError, 0)"
| "DecodeRune (c # cs) =
     (let b = (of_char c :: nat);
          sz = (if b < 0x80 then 1 else if 0xC2 \<le> b \<and> b \<le> 0xDF then 2
                else if 0xE0 \<le> b \<and> b \<le> 0xEF then 3
                else if 0xF0 \<le> b \<and> b \<le> 0xF4 then 4 else 0);
          lo = (if b = 0xE0 then 0xA0 else if b = 0xF0 then 0x90 else 0x80);
          hi = (if b = 0xED then 0x9F else if b = 0xF4 then 0x8F else 0xBF)
      in if sz = 0 then (RuneError, 1)
         else if sz = 1 then ([c], 1)
         else if length cs < sz - 1 then (RuneError, 1)
         else if \<not> inRange lo hi (cs ! 0) then (RuneError, 1)
         else if sz = 2 then (take 2 (c # cs), 2)
         else if \<not> inRange 0x80 0xBF (cs ! 1) then (RuneError, 1)
         else if sz = 3 then (take 3 (c # cs), 3)
         else if \<not> inRange 0x80 0xBF (cs ! 2) then (RuneError, 1)
         else (take 4 (c # cs), 4))"

text \<open>The width, the precision and the verb of \<open>doPrintf\<close>; each step gives the text it
  writes, what is left of the format, \<open>afterIndex\<close> and \<open>goodArgNum\<close>.  A precision starts
  at a \<open>.\<close> that is not the last byte of the format (\<open>i+1 < end\<close>); a \<open>.\<close> at the very
  end is left to be read as the verb.\<close>

definition widthStep :: "string \<Rightarrow> bool \<Rightarrow> bool \<Rightarrow> string \<times> string \<times> bool \<times> bool" where
  "widthStep s afterIndex goodArgNum =
     (if s \<noteq> [] \<and> hd s = CHR ''*''
      then (''%!(BADWIDTH)'', tl s, False, goodArgNum)
      else (case parsenum 0 False s of
              (wid, widPresent, r) \<Rightarrow>
                ([], r, afterIndex, goodArgNum \<and> \<not> (afterIndex \<and> widPresent))))"

definition precStep :: "string \<Rightarrow> bool \<Rightarrow> bool \<Rightarrow> string \<times> string \<times> bool \<times> bool" where
  "precStep s afterIndex goodArgNum =
     (if 1 < length s \<and> hd s = CHR ''.''
      then (case argNumber (goodArgNum \<and> \<not> afterIndex) (tl s) of
              (s', afterIndex', goodArgNum') \<Rightarrow>
                if s' \<noteq> [] \<and> hd s' = CHR ''*''
                then (''%!(BADPREC)'', tl s', False, goodArgNum')
                else (case parsenum 0 False s' of
                        (prec, precPresent, r) \<Rightarrow> ([], r, afterIndex', goodArgNum')))
      else ([], s, afterIndex, goodArgNum))"

definition verbStep :: "string \<Rightarrow> string \<times> string option" where
  "verbStep s0 =
     (case argNumber True (dropWhile isFlag s0) of (s1, after1, good1) \<Rightarrow>
      case widthStep s1 after1 good1 of (out1, s2, after2, good2) \<Rightarrow>
      case precStep s2 after2 good2 of (out2, s3, after3, good3) \<Rightarrow>
      case (if \<not> after3 then argNumber good3 s3 else (s3, after3, good3))
        of (s4, after4, good4) \<Rightarrow>
      if s4 = [] then (out1 @ out2 @ ''%!(NOVERB)'', None)
      else case DecodeRune s4 of (verb, sz) \<Rightarrow>
        (out1 @ out2 @
           (if verb = ''%'' then ''%''
            else if \<not> good4 then ''%!'' @ verb @ ''(BADINDEX)''
            else ''%!'' @ verb @ ''(MISSING)''),
         Some (drop sz s4)))"

text \<open>No step makes the format longer, so the loop of \<open>doPrintf\<close> ends.\<close>

lemma parsenum_length: "parsenum n b s = (n', b', r) \<Longrightarrow> length r \<le> length s"
  by (induction n b s rule: parsenum.induct) (auto split: if_splits)

lemma argNumber_length: "argNumber g s = (r, a, g') \<Longrightarrow> length r \<le> length s"
  by (auto simp: argNumber_def split: if_splits prod.splits)

lemma widthStep_length: "widthStep s a g = (out, r, a', g') \<Longrightarrow> length r \<le> length s"
  by (auto simp: widthStep_def split: if_splits prod.splits dest: parsenum_length)

lemma precStep_length: "precStep s a g = (out, r, a', g') \<Longrightarrow> length r \<le> length s"
  by (auto simp: precStep_def split: if_splits prod.splits
           dest!: parsenum_length argNumber_length)

lemma verbStep_length:
  assumes "verbStep s = (out, Some r)"
  shows "length r \<le> length s"
proof -
  obtain s1 a1 g1 where e1: "argNumber True (dropWhile isFlag s) = (s1, a1, g1)"
    by (metis prod_cases3)
  obtain o1 s2 a2 g2 where e2: "widthStep s1 a1 g1 = (o1, s2, a2, g2)"
    by (metis prod_cases4)
  obtain o2 s3 a3 g3 where e3: "precStep s2 a2 g2 = (o2, s3, a3, g3)"
    by (metis prod_cases4)
  obtain s4 a4 g4 where e4:
    "(if \<not> a3 then argNumber g3 s3 else (s3, a3, g3)) = (s4, a4, g4)"
    by (metis prod_cases3)
  have "length s1 \<le> length s"
    using argNumber_length [OF e1] length_dropWhile_le [of isFlag s] by simp
  moreover have "length s2 \<le> length s1" by (rule widthStep_length [OF e2])
  moreover have "length s3 \<le> length s2" by (rule precStep_length [OF e3])
  moreover have "length s4 \<le> length s3"
    using e4 by (auto split: if_splits dest: argNumber_length)
  moreover have "length r \<le> length s4"
    using assms e1 e2 e3 e4 unfolding verbStep_def
    by (auto split: if_splits prod.splits)
  ultimately show ?thesis by simp
qed

function doPrintf :: "string \<Rightarrow> string" where
  "doPrintf [] = []"
| "doPrintf (c # cs) =
     (if c \<noteq> CHR ''%'' then c # doPrintf cs
      else (case verbStep cs of
              (out, None) \<Rightarrow> out
            | (out, Some r) \<Rightarrow> out @ doPrintf r))"
  by pat_completeness auto
termination
  by (relation "measure length") (auto dest: verbStep_length [OF sym])

definition Sprintf :: "string \<Rightarrow> string" where
  "Sprintf format = doPrintf format"

section \<open>Scanning the first JSON value of a text\<close>

text \<open>
  \<open>json.NewDecoder(file).Decode\<close> reads one value from a stream.  This section follows
  \<open>scanner.go\<close>, \<open>stream.go\<close> and the string decoding of \<open>decode.go\<close> in \<open>encoding/json\<close>.
\<close>

text \<open>\<open>isSpace\<close> of the scanner: space, tab, carriage return, line feed.\<close>

definition isSpace :: "char \<Rightarrow> bool" where
  "isSpace c = (c = CHR '' '' \<or> c = CHR 0x09 \<or> c = CHR 0x0D \<or> c = CHR 0x0A)"

text \<open>Hexadecimal digits, for \<open>\u\<close> escapes.\<close>

definition isHex :: "char \<Rightarrow> bool" where
  "isHex c = (isDigit c \<or> (97 \<le> (of_char c :: nat) \<and> (of_char c :: nat) \<le> 102)
                       \<or> (65 \<le> (of_char c :: nat) \<and> (of_char c :: nat) \<le> 70))"

definition hexVal :: "char \<Rightarrow> nat" where
  "hexVal c = (if isDigit c then of_char c - 48
               else if 97 \<le> (of_char c :: nat) then of_char c - 87
               else of_char c - 55)"

text \<open>\<open>utf8.EncodeRune\<close>: the UTF-8 bytes of a code point; a surrogate or a value beyond
  U+10FFFF is written as U+FFFD.\<close>

definition EncodeRune :: "nat \<Rightarrow> string" where
  "EncodeRune r =
     (if r < 0x80 then [char_of r]
      else if r < 0x800 then [char_of (0xC0 + r div 64), char_of (0x80 + r mod 64)]
      else if (0xD800 \<le> r \<and> r < 0xE000) \<or> 0x10FFFF < r then RuneError
      else if r < 0x10000 then
        [char_of (0xE0 + r div 4096), char_of (0x80 + (r div 64) mod 64),
         char_of (0x80 + r mod 64)]
      else
        [char_of (0xF0 + r div 262144), char_of (0x80 + (r div 4096) mod 64),
         char_of (0x80 + (r div 64) mod 64), char_of (0x80 + r mod 64)])"

text \<open>\<open>getu4\<close>: the number of a \<open>\uXXXX\<close> escape at the start of the text.\<close>

definition getu4 :: "string \<Rightarrow> nat option" where
  "getu4 s =
     (if length s < 6 \<or> s ! 0 \<noteq> CHR 0x5C \<or> s ! 1 \<noteq> CHR ''u''
         \<or> \<not> list_all isHex (take 4 (drop 2 s))
      then None
      else Some (foldl (\<lambda>r c. r * 16 + hexVal c) 0 (take 4 (drop 2 s))))"

text \<open>\<open>unquote\<close>: the string a string literal stands for, from the bytes between its
  quotes.  The scanner has checked the escapes before; a surrogate escape without its
  partner and a byte sequence that is not UTF-8 become U+FFFD.\<close>

definition escapeChar :: "char \<Rightarrow> char" where
  "escapeChar c =
     (if c = CHR ''b'' then CHR 0x08
      else if c = CHR ''f'' then CHR 0x0C
      else if c = CHR ''n'' then CHR 0x0A
      else if c = CHR ''r'' then CHR 0x0D
      else if c = CHR ''t'' then CHR 0x09
      else c)"

fun unquote :: "string \<Rightarrow> string" where
  "unquote [] = []"
| "unquote (c # cs) =
     (if c = CHR 0x5C then
        (case cs of
           [] \<Rightarrow> []
         | e # r \<Rightarrow>
             if e = CHR ''u'' then
               (case getu4 (c # cs) of
                  None \<Rightarrow> []
                | Some rr \<Rightarrow>
                    if 0xD800 \<le> rr \<and> rr < 0xE000 then
                      (case getu4 (drop 4 r) of
                         Some rr1 \<Rightarrow>
                           if rr < 0xDC00 \<and> 0xDC00 \<le> rr1 \<and> rr1 < 0xE000
                           then EncodeRune ((rr - 0xD800) * 1024 + (rr1 - 0xDC00) + 0x10000)
                                @ unquote (drop 10 r)
                           else RuneError @ unquote (drop 4 r)
                       | None \<Rightarrow> RuneError @ unquote (drop 4 r))
                    else EncodeRune rr @ unquote (drop 4 r))
             else escapeChar e # unquote r)
      else if (of_char c :: nat) < 0x80 then c # unquote cs
      else (case DecodeRune (c # cs) of
              (out, sz) \<Rightarrow> out @ unquote (drop (sz - 1) cs)))"

text \<open>The states of the scanner, named after its step functions.\<close>

datatype mode =
    stateBeginValueOrEmpty | stateBeginValue | stateBeginStringOrEmpty | stateBeginString
  | stateEndValue
  | stateInString | stateInStringEsc
  | stateInStringEscU | stateInStringEscU1 | stateInStringEscU12 | stateInStringEscU123
  | stateNeg | state1 | state0 | stateDot | stateDot0 | stateE | stateESign | stateE0
  | stateT | stateTr | stateTru
  | stateF | stateFa | stateFal | stateFals
  | stateN | stateNu | stateNul

text \<open>
  The stack \<open>parseState\<close>.  The scanner of the library only checks the syntax and the
  decoder reads the value in a second pass over the same bytes; the model does both in one
  pass, so each entry of the stack also holds what has been read of its array or object:
  the elements or members so far, and the key of the member being read.
\<close>

datatype frame =
    parseObjectKey "(string \<times> json) list" "string option"
  | parseObjectValue "(string \<times> json) list" "string option"
  | parseArrayValue "json list"

text \<open>The scanner: its state, its stack, the bytes of the literal being read, and the value
  read at the top level.\<close>

record scanner =
  step :: mode
  parseState :: "frame list"
  tok :: string
  topValue :: "json option"

text \<open>What a step reports to \<open>readValue\<close>: go on, the top-level value ended before this
  byte (\<open>scanEnd\<close>), this byte closed the top-level array or object, or a syntax
  error.\<close>

datatype scanCode = scanContinue scanner | scanEnd json | scanEndTop json | scanError

text \<open>A value is complete: it becomes the top-level value, an element of the array, the
  key of the next member, or the value of the member whose key was read.\<close>

definition endLiteral :: "scanner \<Rightarrow> json \<Rightarrow> scanner" where
  "endLiteral sc v =
     (case parseState sc of
        [] \<Rightarrow> sc\<lparr>step := stateEndValue, topValue := Some v\<rparr>
      | parseArrayValue vs # ps \<Rightarrow>
          sc\<lparr>step := stateEndValue, parseState := parseArrayValue (vs @ [v]) # ps\<rparr>
      | parseObjectKey ms k # ps \<Rightarrow>
          sc\<lparr>step := stateEndValue,
             parseState := parseObjectKey ms (case v of JString key \<Rightarrow> Some key | _ \<Rightarrow> k) # ps\<rparr>
      | parseObjectValue ms k # ps \<Rightarrow>
          sc\<lparr>step := stateEndValue,
             parseState := parseObjectValue (case k of Some key \<Rightarrow> ms @ [(key, v)] | None \<Rightarrow> ms)
                              None # ps\<rparr>)"

text \<open>\<open>popParseState\<close>: an array or object is closed; with an empty stack it was the
  top-level value.\<close>

definition popParseState :: "scanner \<Rightarrow> json \<Rightarrow> frame list \<Rightarrow> scanCode" where
  "popParseState sc v ps =
     (if ps = [] then scanEndTop v else scanContinue (endLiteral (sc\<lparr>parseState := ps\<rparr>) v))"

text \<open>\<open>stateEndValue\<close> and, with an empty stack, \<open>stateEndTop\<close>.\<close>

definition doEndValue :: "scanner \<Rightarrow> char \<Rightarrow> scanCode" where
  "doEndValue sc c =
     (case parseState sc of
        [] \<Rightarrow>
          (if isSpace c then (case topValue sc of Some v \<Rightarrow> scanEnd v | None \<Rightarrow> scanError)
           else scanError)
      | f # ps \<Rightarrow>
          if isSpace c then scanContinue (sc\<lparr>step := stateEndValue\<rparr>)
          else (case f of
                  parseObjectKey ms k \<Rightarrow>
                    if c = CHR '':''
                    then scanContinue (sc\<lparr>parseState := parseObjectValue ms k # ps,
                                           step := stateBeginValue\<rparr>)
                    else scanError
                | parseObjectValue ms k \<Rightarrow>
                    if c = CHR '',''
                    then scanContinue (sc\<lparr>parseState := parseObjectKey ms None # ps,
                                           step := stateBeginString\<rparr>)
                    else if c = CHR ''}'' then popParseState sc (JObject ms) ps
                    else scanError
                | parseArrayValue vs \<Rightarrow>
                    if c = CHR '','' then scanContinue (sc\<lparr>step := stateBeginValue\<rparr>)
                    else if c = CHR '']'' then popParseState sc (JArray vs) ps
                    else scanError))"

text \<open>\<open>stateBeginValue\<close> and \<open>stateBeginString\<close>.\<close>

definition doBeginValue :: "scanner \<Rightarrow> char \<Rightarrow> scanCode" where
  "doBeginValue sc c =
     (if isSpace c then scanContinue sc
      else if c = CHR ''{'' then
        scanContinue (sc\<lparr>step := stateBeginStringOrEmpty,
                          parseState := parseObjectKey [] None # parseState sc\<rparr>)
      else if c = CHR ''['' then
        scanContinue (sc\<lparr>step := stateBeginValueOrEmpty,
                          parseState := parseArrayValue [] # parseState sc\<rparr>)
      else if c = CHR 0x22 then scanContinue (sc\<lparr>step := stateInString, tok := []\<rparr>)
      else if c = CHR ''-'' then scanContinue (sc\<lparr>step := stateNeg, tok := [c]\<rparr>)
      else if c = CHR ''0'' then scanContinue (sc\<lparr>step := state0, tok := [c]\<rparr>)
      else if c = CHR ''t'' then scanContinue (sc\<lparr>step := stateT\<rparr>)
      else if c = CHR ''f'' then scanContinue (sc\<lparr>step := stateF\<rparr>)
      else if c = CHR ''n'' then scanContinue (sc\<lparr>step := stateN\<rparr>)
      else if isDigit c then scanContinue (sc\<lparr>step := state1, tok := [c]\<rparr>)
      else scanError)"

definition doBeginString :: "scanner \<Rightarrow> char \<Rightarrow> scanCode" where
  "doBeginString sc c =
     (if isSpace c then scanContinue sc
      else if c = CHR 0x22 then scanContinue (sc\<lparr>step := stateInString, tok := []\<rparr>)
      else scanError)"

text \<open>Helpers of the states inside a literal: the next byte of \<open>true\<close>, \<open>false\<close>,
  \<open>null\<close>; one more byte of a string or number; the end of a number, where the byte that
  ends it is handled by \<open>stateEndValue\<close>.\<close>

definition expect :: "scanner \<Rightarrow> char \<Rightarrow> char \<Rightarrow> mode \<Rightarrow> scanCode" where
  "expect sc c want next = (if c = want then scanContinue (sc\<lparr>step := next\<rparr>) else scanError)"

definition extend :: "scanner \<Rightarrow> char \<Rightarrow> mode \<Rightarrow> scanCode" where
  "extend sc c next = scanContinue (sc\<lparr>step := next, tok := tok sc @ [c]\<rparr>)"

definition endNumber :: "scanner \<Rightarrow> char \<Rightarrow> scanCode" where
  "endNumber sc c = doEndValue (endLiteral sc (JNumber (tok sc))) c"

definition do0 :: "scanner \<Rightarrow> char \<Rightarrow> scanCode" where
  "do0 sc c =
     (if c = CHR ''.'' then extend sc c stateDot
      else if c = CHR ''e'' \<or> c = CHR ''E'' then extend sc c stateE
      else endNumber sc c)"

definition doESign :: "scanner \<Rightarrow> char \<Rightarrow> scanCode" where
  "doESign sc c = (if isDigit c then extend sc c stateE0 else scanError)"

text \<open>One byte, in the state the scanner is in.\<close>

definition scanStep :: "scanner \<Rightarrow> char \<Rightarrow> scanCode" where
  "scanStep sc c =
     (case step sc of
        stateBeginValue \<Rightarrow> doBeginValue sc c
      | stateBeginValueOrEmpty \<Rightarrow>
          if isSpace c then scanContinue sc
          else if c = CHR '']'' then doEndValue sc c
          else doBeginValue sc c
      | stateBeginStringOrEmpty \<Rightarrow>
          if isSpace c then scanContinue sc
          else if c = CHR ''}'' then
            doEndValue
              (sc\<lparr>parseState :=
                    (case parseState sc of
                       parseObjectKey ms k # ps \<Rightarrow> parseObjectValue ms k # ps
                     | ps \<Rightarrow> ps)\<rparr>) c
          else doBeginString sc c
      | stateBeginString \<Rightarrow> doBeginString sc c
      | stateEndValue \<Rightarrow> doEndValue sc c
      | stateInString \<Rightarrow>
          if c = CHR 0x22 then scanContinue (endLiteral sc (JString (unquote (tok sc))))
          else if c = CHR 0x5C then extend sc c stateInStringEsc
          else if (of_char c :: nat) < 0x20 then scanError
          else extend sc c stateInString
      | stateInStringEsc \<Rightarrow>
          if c \<in> set ''bfnrt/'' \<or> c = CHR 0x5C \<or> c = CHR 0x22 then extend sc c stateInString
          else if c = CHR ''u'' then extend sc c stateInStringEscU
          else scanError
      | stateInStringEscU \<Rightarrow> if isHex c then extend sc c stateInStringEscU1 else scanError
      | stateInStringEscU1 \<Rightarrow> if isHex c then extend sc c stateInStringEscU12 else scanError
      | stateInStringEscU12 \<Rightarrow> if isHex c then extend sc c stateInStringEscU123 else scanError
      | stateInStringEscU123 \<Rightarrow> if isHex c then extend sc c stateInString else scanError
      | stateNeg \<Rightarrow>
          if c = CHR ''0'' then extend sc c state0
          else if isDigit c then extend sc c state1
          else scanError
      | state1 \<Rightarrow> if isDigit c then extend sc c state1 else do0 sc c
      | state0 \<Rightarrow> do0 sc c
      | stateDot \<Rightarrow> if isDigit c then extend sc c stateDot0 else scanError
      | stateDot0 \<Rightarrow>
          if isDigit c then extend sc c stateDot0
          else if c = CHR ''e'' \<or> c = CHR ''E'' then extend sc c stateE
          else endNumber sc c
      | stateE \<Rightarrow>
          if c = CHR ''+'' \<or> c = CHR ''-'' then extend sc c stateESign else doESign sc c
      | stateESign \<Rightarrow> doESign sc c
      | stateE0 \<Rightarrow> if isDigit c then extend sc c stateE0 else endNumber sc c
      | stateT \<Rightarrow> expect sc c (CHR ''r'') stateTr
      | stateTr \<Rightarrow> expect sc c (CHR ''u'') stateTru
      | stateTru \<Rightarrow>
          if c = CHR ''e'' then scanContinue (endLiteral sc (JBool True)) else scanError
      | stateF \<Rightarrow> expect sc c (CHR ''a'') stateFa
      | stateFa \<Rightarrow> expect sc c (CHR ''l'') stateFal
      | stateFal \<Rightarrow> expect sc c (CHR ''s'') stateFals
      | stateFals \<Rightarrow>
          if c = CHR ''e'' then scanContinue (endLiteral sc (JBool False)) else scanError
      | stateN \<Rightarrow> expect sc c (CHR ''u'') stateNu
      | stateNu \<Rightarrow> expect sc c (CHR ''l'') stateNul
      | stateNul \<Rightarrow>
          if c = CHR ''l'' then scanContinue (endLiteral sc JNull) else scanError)"

text \<open>
  \<open>(*Decoder).readValue\<close>: the bytes are fed to the scanner until the first value is
  complete.  An array or object is complete at its closing bracket, and nothing after it
  is read.  A string, number or literal at the top level is complete when white space or
  the end of the text follows.  When the text ends before that, the error is \<open>io.EOF\<close>
  if only white space was read, and \<open>io.ErrUnexpectedEOF\<close> otherwise.  The result is the
  value with the text left unread, or the kind of error.
\<close>

datatype scanResult = ScanOk json string | ScanSyntax | ScanEOF | ScanUnexpectedEOF

fun readValue :: "scanner \<Rightarrow> bool \<Rightarrow> string \<Rightarrow> scanResult" where
  "readValue sc seen [] =
     (case scanStep sc (CHR '' '') of
        scanEnd v \<Rightarrow> ScanOk v []
      | _ \<Rightarrow> if seen then ScanUnexpectedEOF else ScanEOF)"
| "readValue sc seen (c # cs) =
     (case scanStep sc c of
        scanError \<Rightarrow> ScanSyntax
      | scanEnd v \<Rightarrow> ScanOk v (c # cs)
      | scanEndTop v \<Rightarrow> ScanOk v cs
      | scanContinue sc' \<Rightarrow> readValue sc' (seen \<or> \<not> isSpace c) cs)"

definition scanReset :: scanner where
  "scanReset = \<lparr>step = stateBeginValue, parseState = [], tok = [], topValue = None\<rparr>"

definition scanValue :: "string \<Rightarrow> scanResult" where
  "scanValue text = readValue scanReset False text"

section \<open>Decoding the configuration\<close>

text \<open>
  \<open>decoder.Decode(&dests)\<close> with \<open>dests\<close> of type \<open>[]Dest\<close>.  The first value of the text
  is scanned (\<open>scanValue\<close>); then it is stored into the slice by the rules of \<open>encoding/json\<close>
  for the types of the source: an array into the slice, an object into a \<open>Dest\<close>, a string
  into a string field, \<open>null\<close> into anything without effect, and any other combination an
  \<open>UnmarshalTypeError\<close>.  A member whose key names no field is skipped; a field no member
  names keeps its zero value.  The decoder goes on after a type error and returns the
  first one; \<open>main\<close> uses the slice only when no error is returned, so the model returns
  either the first error or the slice.
\<close>

definition isUpper :: "char \<Rightarrow> bool" where
  "isUpper c = (65 \<le> (of_char c :: nat) \<and> (of_char c :: nat) \<le> 90)"

definition isLower :: "char \<Rightarrow> bool" where
  "isLower c = (97 \<le> (of_char c :: nat) \<and> (of_char c :: nat) \<le> 122)"

definition toUpper :: "char \<Rightarrow> char" where
  "toUpper c = (if isLower c then char_of ((of_char c :: nat) - 32) else c)"

definition smallLongEss :: string where
  "smallLongEss = [char_of (0xC5::nat), char_of (0xBF::nat)]"

definition kelvin :: string where
  "kelvin = [char_of (0xE2::nat), char_of (0x84::nat), char_of (0xAA::nat)]"

text \<open>\<open>equalFoldRight s t\<close> of \<open>encoding/json\<close>: the field name \<open>s\<close> is ASCII; the key \<open>t\<close>
  matches it up to the case of letters, where U+017F counts as an \<open>s\<close> and U+212A as a
  \<open>k\<close>.  Both field names of \<open>Dest\<close> contain an \<open>s\<close>, so this is the comparison used.\<close>

fun equalFoldRight :: "string \<Rightarrow> string \<Rightarrow> bool" where
  "equalFoldRight [] t = (t = [])"
| "equalFoldRight (sb # s) [] = False"
| "equalFoldRight (sb # s) (tb # t) =
     (if (of_char tb :: nat) < 0x80 then
        (sb = tb \<or> ((isUpper sb \<or> isLower sb) \<and> (isUpper tb \<or> isLower tb)
                     \<and> toUpper sb = toUpper tb))
        \<and> equalFoldRight s t
      else (case DecodeRune (tb # t) of
              (tr, sz) \<Rightarrow>
                ((toUpper sb = CHR ''S'' \<and> tr = smallLongEss)
                 \<or> (toUpper sb = CHR ''K'' \<and> tr = kelvin))
                \<and> equalFoldRight s (drop sz (tb # t))))"

text \<open>The field a key selects: a field of exactly that name, else the first field that
  matches up to case.\<close>

fun findField :: "string list \<Rightarrow> string \<Rightarrow> string option \<Rightarrow> string option" where
  "findField [] key f = f"
| "findField (ff # ffs) key f =
     (if ff = key then Some ff
      else findField ffs key (if f = None \<and> equalFoldRight ff key then Some ff else f))"

definition DestFields :: "string list" where
  "DestFields = [''host'', ''user'']"

definition typeErrorValue :: "string \<Rightarrow> string \<Rightarrow> error" where
  "typeErrorValue v t = Error (''json: cannot unmarshal '' @ v @ '' into Go value of type '' @ t)"

definition typeErrorField :: "string \<Rightarrow> string \<Rightarrow> error" where
  "typeErrorField v f =
     Error (''json: cannot unmarshal '' @ v @ '' into Go struct field Dest.'' @ f
            @ '' of type string'')"

fun jsonKind :: "json \<Rightarrow> string" where
  "jsonKind JNull = ''null''"
| "jsonKind (JBool b) = ''bool''"
| "jsonKind (JNumber n) = ''number''"
| "jsonKind (JString s) = ''string''"
| "jsonKind (JArray xs) = ''array''"
| "jsonKind (JObject ms) = ''object''"

text \<open>Storing one member of an object into a \<open>Dest\<close>: the first error so far, and the
  \<open>Dest\<close>.\<close>

definition storeMember :: "string \<times> json \<Rightarrow> error option \<times> Dest \<Rightarrow> error option \<times> Dest" where
  "storeMember m acc =
     (case acc of (err, d) \<Rightarrow>
      case findField DestFields (fst m) None of
        None \<Rightarrow> (err, d)
      | Some f \<Rightarrow>
          (case snd m of
             JString v \<Rightarrow> (err, if f = ''host'' then d\<lparr>Host := v\<rparr> else d\<lparr>User := v\<rparr>)
           | JNull \<Rightarrow> (err, d)
           | v \<Rightarrow> (if err = None then Some (typeErrorField (jsonKind v) f) else err, d)))"

definition zeroDest :: Dest where
  "zeroDest = \<lparr>Host = [], User = []\<rparr>"

text \<open>One element of the array into a fresh element of the slice.\<close>

definition decodeDest :: "json \<Rightarrow> error option \<times> Dest" where
  "decodeDest j =
     (case j of
        JObject ms \<Rightarrow> foldl (\<lambda>acc m. storeMember m acc) (None, zeroDest) ms
      | JNull \<Rightarrow> (None, zeroDest)
      | v \<Rightarrow> (Some (typeErrorValue (jsonKind v) ''main.Dest''), zeroDest))"

fun firstError :: "error option list \<Rightarrow> error option" where
  "firstError [] = None"
| "firstError (Some e # es) = Some e"
| "firstError (None # es) = firstError es"

definition decodeDests :: "json \<Rightarrow> error + Dest list" where
  "decodeDests j =
     (case j of
        JArray xs \<Rightarrow>
          (case firstError (map (fst \<circ> decodeDest) xs) of
             Some e \<Rightarrow> Inl e
           | None \<Rightarrow> Inr (map (snd \<circ> decodeDest) xs))
      | JNull \<Rightarrow> Inr []
      | v \<Rightarrow> Inl (typeErrorValue (jsonKind v) ''[]main.Dest''))"

definition Decode :: "world \<Rightarrow> string \<Rightarrow> error + Dest list" where
  "Decode w content =
     (case scanValue content of
        ScanSyntax \<Rightarrow> Inl (Error (syntaxErrorText w content))
      | ScanEOF \<Rightarrow> Inl (Error ''EOF'')
      | ScanUnexpectedEOF \<Rightarrow> Inl (Error ''unexpected EOF'')
      | ScanOk j rest \<Rightarrow> decodeDests j)"

section \<open>The session\<close>

text \<open>
  \<open>NewSession(ip, port, user, privateKey) (*Session, error)\<close>: the Go function returns a
  pair, and so does the model; each early \<open>return nil, err\<close> is a branch.
\<close>

definition NewSession ::
  "world \<Rightarrow> string \<Rightarrow> string \<Rightarrow> string \<Rightarrow> string \<Rightarrow> state
     \<Rightarrow> (Session option \<times> error option) \<times> state" where
  "NewSession w ip port user privateKey st0 =
     (let st1 = log (EvReadFile privateKey) st0 in
      case fs w privateKey of
        Inl err \<Rightarrow> ((None, Some err), st1)
      | Inr buf \<Rightarrow>
     (case parsePrivateKey w buf of
        Inl err \<Rightarrow> ((None, Some err), st1)
      | Inr key \<Rightarrow>
     (let cfg = \<lparr>cfgUser = user, cfgAuth = [key]\<rparr>;
          st2 = log (EvDial (ip @ '':'' @ port) user) st1 in
      case dial w (ip @ '':'' @ port) cfg of
        Inl err \<Rightarrow> ((None, Some err), st2)
      | Inr c \<Rightarrow>
     (let st3 = log (EvNewSession c) st2 in
      case newSession w c of
        Inl err \<Rightarrow> ((None, Some err), st3)
      | Inr s \<Rightarrow>
          ((Some \<lparr>config = Some cfg, conn = Some c, session = Some s, StdinPipe = None\<rparr>,
            None), st3)))))"

text \<open>
  \<open>func (s *Session) Close()\<close>.  The receiver is a pointer: reading \<open>s.session\<close> through a
  nil receiver is a nil pointer dereference.
\<close>

definition Close :: "Session option \<Rightarrow> state \<Rightarrow> (panic + unit) \<times> state" where
  "Close sp st =
     (case sp of
        None \<Rightarrow> (Inl NilPointerDereference, st)
      | Some s \<Rightarrow>
          (let st1 = (case session s of Some x \<Rightarrow> log (EvCloseSession x) st | None \<Rightarrow> st);
               st2 = (case conn s of Some c \<Rightarrow> log (EvCloseConn c) st1 | None \<Rightarrow> st1)
           in (Inr (), st2)))"

text \<open>
  \<open>func (s *Session) GetCrontab() ([]byte, error)\<close>: \<open>s.session.Output("crontab -l\n")\<close>.
  \<open>Output\<close> on a nil \<open>*ssh.Session\<close> reads a field of it first, so it panics as well.
\<close>

definition GetCrontab ::
  "world \<Rightarrow> Session option \<Rightarrow> state \<Rightarrow> (panic + (string \<times> error option)) \<times> state" where
  "GetCrontab w sp st =
     (case sp of
        None \<Rightarrow> (Inl NilPointerDereference, st)
      | Some s \<Rightarrow>
          (case session s of
             None \<Rightarrow> (Inl NilPointerDereference, st)
           | Some x \<Rightarrow>
               (let cmd = ''crontab -l'' @ nl
                in (Inr (sessionOutput w x cmd), log (EvOutput x cmd) st))))"

section \<open>The unit of work and the runner\<close>

text \<open>\<open>wg.Done()\<close>: the counter goes down by one; a counter below zero is a panic.\<close>

definition wgDone :: "state \<Rightarrow> (panic + unit) \<times> state" where
  "wgDone st =
     (let st' = st\<lparr>wg := wg st - 1\<rparr>
      in if wg st' < 0 then (Inl NegativeWaitGroupCounter, st') else (Inr (), st'))"

text \<open>
  Lines 89 to 101 of \<open>call\<close>, after the two \<open>defer\<close> statements: no branch returns, so the
  two \<open>Printf\<close> at the end run whenever \<open>GetCrontab\<close> itself does not panic.
\<close>

definition callBody ::
  "world \<Rightarrow> Session option \<Rightarrow> string \<Rightarrow> string \<Rightarrow> state \<Rightarrow> (panic + unit) \<times> state" where
  "callBody w sp host user st =
     (case GetCrontab w sp st of
        (Inl p, st1) \<Rightarrow> (Inl p, st1)
      | (Inr (bytes, err), st1) \<Rightarrow>
          (let st2 = (if err \<noteq> None
                      then printErr (''ERROR: [Host] '' @ host @ ''@'' @ user @ nl) st1
                      else st1);
               st3 = (case err of
                        Some e \<Rightarrow>
                          printErr (ErrorStr e @ nl)
                            (printErr (''ERROR: [Host] '' @ host @ ''@'' @ user @ nl) st2)
                      | None \<Rightarrow> st2);
               content = Sprintf bytes;
               st4 = printOut (''[Host] '' @ user @ ''@'' @ host @ nl) st3;
               st5 = printOut (''[Content] '' @ nl @ content @ nl) st4
           in (Inr (), st5)))"

text \<open>
  \<open>func call(wg, host, user)\<close>, with the globals \<open>privateKey\<close> and \<open>port\<close> as parameters.
  The deferred calls run last, in reverse order, also when the body panics:
  \<open>session.Close()\<close>, then \<open>wg.Done()\<close>.  The unit ends in a panic when the body or a
  deferred call panicked.
\<close>

definition call ::
  "world \<Rightarrow> string \<Rightarrow> string \<Rightarrow> string \<Rightarrow> string \<Rightarrow> state \<Rightarrow> (panic + unit) \<times> state" where
  "call w privateKey port host user st0 =
     (case NewSession w host port user privateKey st0 of
        ((sp, err), st1) \<Rightarrow>
          (let st2 = (if err \<noteq> None
                      then printErr (''ERROR: [Host] '' @ host @ ''@'' @ user @ nl) st1
                      else st1)
           in case callBody w sp host user st2 of (r1, st3) \<Rightarrow>
              case Close sp st3 of (r2, st4) \<Rightarrow>
              case wgDone st4 of (r3, st5) \<Rightarrow>
                (case r3 of Inl p \<Rightarrow> Inl p
                 | Inr u \<Rightarrow> (case r2 of Inl p \<Rightarrow> Inl p | Inr u \<Rightarrow> r1), st5)))"

text \<open>
  The goroutines started by \<open>main\<close> and \<open>wg.Wait()\<close>.  Each unit is run as one step; the
  order is the scheduler's, given by \<open>sched\<close>: at each step its head, modulo the number of
  units not yet run, picks the next one (the first when \<open>sched\<close> is used up).  \<open>Wait\<close>
  returns when the counter is zero.  An unrecovered panic of a unit ends the whole process
  at once; the units not yet run never finish.  The report of the panic that the runtime
  prints is not added to \<open>stderr\<close>.

  This is a coarser order than the program has: there the statements of different units
  interleave, so a unit may have printed or dialled before another one panics.  Every run
  of the model is a run of the program (the scheduler may run the goroutines one after the
  other), not the other way round; what is proved for every \<open>sched\<close> is proved for these
  runs only.
\<close>

definition pick :: "nat list \<Rightarrow> nat \<Rightarrow> nat" where
  "pick sched n = (case sched of [] \<Rightarrow> 0 | k # ks \<Rightarrow> k mod n)"

lemma pick_less: "0 < n \<Longrightarrow> pick sched n < n"
  by (simp add: pick_def split: list.splits)

lemma remove_shorter:
  "pending \<noteq> [] \<Longrightarrow>
   length (take (pick sched (length pending)) pending
           @ drop (Suc (pick sched (length pending))) pending) < length pending"
  using pick_less [of "length pending" sched] by simp

function Wait ::
  "world \<Rightarrow> string \<Rightarrow> string \<Rightarrow> nat list \<Rightarrow> Dest list \<Rightarrow> state \<Rightarrow> outcome \<times> state" where
  "Wait w privateKey port sched pending st =
     (if wg st = 0 then (Exit 0, st)
      else if pending = [] then (Deadlock, st)
      else (case call w privateKey port
                   (Host (pending ! pick sched (length pending)))
                   (User (pending ! pick sched (length pending))) st of
              (Inl p, st') \<Rightarrow> (Crash p, st')
            | (Inr u, st') \<Rightarrow>
                Wait w privateKey port (tl sched)
                  (take (pick sched (length pending)) pending
                   @ drop (Suc (pick sched (length pending))) pending) st'))"
  by pat_completeness auto
termination
  by (relation "measure (\<lambda>(w, privateKey, port, sched, pending, st). length pending)")
     (simp_all only: wf_measure in_measure prod.case, rule remove_shorter)

text \<open>\<open>func showUsage()\<close>\<close>

definition showUsage :: "world \<Rightarrow> flags \<Rightarrow> state \<Rightarrow> state" where
  "showUsage w fl st =
     printErr (flagDefaults w)
       (printErr (''Flags:'' @ nl)
          (printErr (''Usage: '' @ progName fl @ '' [configfile]'' @ nl) st))"

text \<open>
  \<open>func main()\<close>, from the state in which nothing has been written.  Every \<open>os.Exit\<close> is
  a branch.  \<open>wg.Add(len(dests))\<close> sets the counter, the loop starts one goroutine for each
  destination, and \<open>Wait\<close> runs them.
\<close>

definition main :: "world \<Rightarrow> flags \<Rightarrow> nat list \<Rightarrow> outcome \<times> state" where
  "main w fl sched =
     (if help_flag fl then (Exit 0, showUsage w fl init_state)
      else if length (args fl) \<noteq> 1 then
        (Exit 1,
         printErr (''Usage: '' @ progName fl @ '' [configfile]'' @ nl)
           (printErr (''ERROR: Arguments length is invalid'' @ nl) init_state))
      else case fs w (args fl ! 0) of
        Inl err \<Rightarrow> (Exit 1, printErr (ErrorStr err @ nl) init_state)
      | Inr file \<Rightarrow>
     (case Decode w file of
        Inl err \<Rightarrow> (Exit 1, printErr (ErrorStr err @ nl) init_state)
      | Inr dests \<Rightarrow>
     (case (if privateKey_flag fl = []
            then (case homeDir w of
                    Inl err \<Rightarrow> Inl err
                  | Inr home \<Rightarrow> Inr (filepathJoin w [home, ''.ssh'', ''id_rsa'']))
            else Inr (privateKey_flag fl)) of
        Inl err \<Rightarrow> (Exit 1, printErr (ErrorStr err @ nl) init_state)
      | Inr privateKey \<Rightarrow>
          (let port = (if port_flag fl = [] then defaultPort else port_flag fl)
           in Wait w privateKey port sched dests
                (init_state\<lparr>wg := int (length dests)\<rparr>)))))"

section \<open>A concrete environment\<close>

text \<open>
  One environment to run the model in.  The key file of user \<open>op\<close> exists and parses.
  Host \<open>h1\<close> answers with one crontab line; \<open>h2\<close> refuses the connection; on \<open>h3\<close> the
  session opens and \<open>crontab -l\<close> exits with status 1; \<open>h4\<close> answers with a crontab whose
  comment holds a percent sign.
\<close>

definition two_json :: string where
  \<open>two_json = ''[{"host":"h1","user":"u1"},{"host":"h2","user":"u2"}]''\<close>

definition nouser_json :: string where
  \<open>nouser_json = ''[{"host":"h1"}]''\<close>

definition truncated_json :: string where
  \<open>truncated_json = ''[{"host":"h1",''\<close>

definition trailing_json :: string where
  \<open>trailing_json = ''[{"host":"h1","user":"u1"}]]''\<close>

definition badtype_json :: string where
  \<open>badtype_json = ''[{"host":1,"user":"u1"}]''\<close>

definition demo_fs :: "string \<Rightarrow> error + string" where
  "demo_fs p =
     (if p = ''/home/op/.ssh/id_rsa'' then Inr ''KEY''
      else if p = ''two.json'' then Inr two_json
      else if p = ''nouser.json'' then Inr nouser_json
      else if p = ''truncated.json'' then Inr truncated_json
      else if p = ''badtype.json'' then Inr badtype_json
      else if p = ''trailing.json'' then Inr trailing_json
      else if p = ''blank.json'' then Inr ''  ''
      else if p = ''empty.json'' then Inr ''[]''
      else Inl (Error (''open '' @ p @ '': no such file or directory'')))"

definition demo_dial :: "string \<Rightarrow> ClientConfig \<Rightarrow> error + client" where
  "demo_dial addr cfg =
     (if addr = ''h1:22'' then Inr 1
      else if addr = ''h3:22'' then Inr 3
      else if addr = ''h4:22'' then Inr 4
      else Inl (Error (''dial tcp '' @ addr @ '': connect: connection refused'')))"

definition demo_output :: "sshsession \<Rightarrow> string \<Rightarrow> string \<times> error option" where
  "demo_output s cmd =
     (if s = 10 then (''* * * * * /bin/true'' @ nl, None)
      else if s = 40 then (''# keep 50% free'' @ nl, None)
      else ([], Some (Error ''Process exited with status 1'')))"

definition demo_world :: world where
  "demo_world =
     \<lparr>fs = demo_fs,
      syntaxErrorText = (\<lambda>t. ''invalid character in JSON text''),
      homeDir = Inr ''/home/op'',
      filepathJoin = (\<lambda>xs. case xs of [] \<Rightarrow> [] | x # r \<Rightarrow> foldl (\<lambda>a b. a @ ''/'' @ b) x r),
      flagDefaults = [],
      parsePrivateKey = (\<lambda>b. if b = ''KEY'' then Inr 7 else Inl (Error ''ssh: no key found'')),
      dial = demo_dial,
      newSession = (\<lambda>c. Inr (10 * c)),
      sessionOutput = demo_output\<rparr>"

text \<open>The same environment for a user whose home directory cannot be found.\<close>

definition nohome_world :: world where
  "nohome_world = demo_world\<lparr>homeDir := Inl (Error ''blank output when reading home directory'')\<rparr>"

text \<open>The command line \<open>prog file\<close>, with no flag given.\<close>

definition run_with :: "string \<Rightarrow> flags" where
  "run_with file =
     \<lparr>help_flag = False, quiet_flag = False, privateKey_flag = [], port_flag = [],
      args = [file], progName = ''cron-job-list''\<rparr>"

section \<open>Predicates of the specification\<close>

text \<open>\<open>contains s sub\<close>: the text \<open>sub\<close> occurs in \<open>s\<close>.\<close>

fun contains :: "string \<Rightarrow> string \<Rightarrow> bool" where
  "contains [] sub = (sub = [])"
| "contains (c # cs) sub = (take (length sub) (c # cs) = sub \<or> contains cs sub)"










text \<open>Arrays and objects, the values that end at a closing bracket.\<close>

definition isContainer :: "json \<Rightarrow> bool" where
  "isContainer j = (case j of JArray xs \<Rightarrow> True | JObject ms \<Rightarrow> True | _ \<Rightarrow> False)"

text \<open>The value the scanner holds as read at the top level is never an array or object:
  those end the scan at once.\<close>

definition topScalar :: "scanner \<Rightarrow> bool" where
  "topScalar sc = (case topValue sc of Some v \<Rightarrow> \<not> isContainer v | None \<Rightarrow> True)"








text \<open>
  A destination opens when \<open>NewSession\<close> gives a session for it (the result does not depend
  on the state it starts from).  The number of connections closed so far counts the units
  that have run to their end.
\<close>

definition opens :: "world \<Rightarrow> string \<Rightarrow> string \<Rightarrow> Dest \<Rightarrow> bool" where
  "opens w privateKey port d =
     (fst (fst (NewSession w (Host d) port (User d) privateKey init_state)) \<noteq> None)"

definition isCloseConn :: "event \<Rightarrow> bool" where
  "isCloseConn e = (case e of EvCloseConn c \<Rightarrow> True | _ \<Rightarrow> False)"

definition closedConns :: "state \<Rightarrow> nat" where
  "closedConns st = length (filter isCloseConn (trace st))"

section \<open>Properties\<close>

lemmas demo_defs =
  demo_world_def demo_fs_def demo_dial_def demo_output_def
  two_json_def nouser_json_def truncated_json_def badtype_json_def trailing_json_def
  run_with_def
  nohome_world_def

lemmas call_defs =
  call_def callBody_def GetCrontab_def Close_def wgDone_def NewSession_def
  log_def init_state_def printErr_def printOut_def

subsection \<open>The decoder accepts what \<open>configOK\<close> describes\<close>







lemma decodeDests_order:
  "decodeDests (JArray xs) = Inr ds \<Longrightarrow>
   length ds = length xs \<and> (\<forall>i < length xs. ds ! i = snd (decodeDest (xs ! i)))"
  by (auto simp: decodeDests_def split: option.splits)

lemma decodeDest_pair:
  "decodeDest (JObject [(''host'', JString h), (''user'', JString u)])
   = (None, \<lparr>Host = h, User = u\<rparr>)"
  by (simp add: decodeDest_def storeMember_def DestFields_def zeroDest_def)

subsection \<open>What follows the first array or object is not read\<close>


lemma topScalar_upd [simp]:
  "topScalar (sc\<lparr>step := m\<rparr>) = topScalar sc"
  "topScalar (sc\<lparr>parseState := ps\<rparr>) = topScalar sc"
  "topScalar (sc\<lparr>tok := t\<rparr>) = topScalar sc"
  by (simp_all add: topScalar_def)














subsection \<open>The fields of a decoded object\<close>










subsection \<open>A text cut short inside its first array or object is rejected\<close>








subsection \<open>A configuration written as in the example decodes to its destinations\<close>











subsection \<open>Text without a percent sign is formatted as itself\<close>

lemma doPrintf_plain: "CHR ''%'' \<notin> set s \<Longrightarrow> doPrintf s = s"
  by (induction s) auto

lemma Sprintf_plain: "CHR ''%'' \<notin> set s \<Longrightarrow> Sprintf s = s"
  by (simp add: Sprintf_def doPrintf_plain)

subsection \<open>The three ways a unit goes\<close>

text \<open>
  For any environment: when \<open>NewSession\<close> fails the unit prints one error line and panics;
  when it succeeds the unit prints the block, after the error lines if the command failed,
  closes the channel and the connection, and ends normally.
\<close>

lemma NewSession_error_None:
  "NewSession w ip port user privateKey st = ((sp, Some e), st') \<Longrightarrow> sp = None"
  by (auto simp: NewSession_def Let_def split: sum.splits)

lemma call_open_failure:
  assumes "NewSession w host port user privateKey st = ((sp, Some e), st1)"
  shows "\<exists>p. call w privateKey port host user st
         = (Inl p, st1\<lparr>stderr := stderr st1 @ ''ERROR: [Host] '' @ host @ ''@'' @ user @ nl,
                        wg := wg st1 - 1\<rparr>)"
proof -
  from NewSession_error_None [OF assms] have "sp = None" .
  with assms show ?thesis
    by (simp add: call_def callBody_def GetCrontab_def Close_def wgDone_def printErr_def Let_def)
qed

lemma NewSession_ok_fields:
  "NewSession w host port user privateKey st = ((Some s, err), st1)
   \<Longrightarrow> err = None \<and> (\<exists>c x. conn s = Some c \<and> session s = Some x)"
  by (auto simp: NewSession_def Let_def split: sum.splits)

lemma call_success:
  assumes "NewSession w host port user privateKey st = ((Some s, err), st1)"
    and "session s = Some x" and "conn s = Some c"
    and "sessionOutput w x (''crontab -l'' @ nl) = (bytes, None)"
    and "0 < wg st1"
  shows "call w privateKey port host user st
         = (Inr (),
            st1\<lparr>stdout := stdout st1 @ ''[Host] '' @ user @ ''@'' @ host @ nl
                            @ ''[Content] '' @ nl @ Sprintf bytes @ nl,
                trace := trace st1 @ [EvOutput x (''crontab -l'' @ nl), EvCloseSession x,
                                      EvCloseConn c],
                wg := wg st1 - 1\<rparr>)"
proof -
  from NewSession_ok_fields [OF assms(1)] have "err = None" by simp
  with assms show ?thesis
    by (simp add: call_def callBody_def GetCrontab_def Close_def wgDone_def printErr_def
                  printOut_def log_def Let_def)
qed

lemma call_command_failure:
  assumes "NewSession w host port user privateKey st = ((Some s, err), st1)"
    and "session s = Some x" and "conn s = Some c"
    and "sessionOutput w x (''crontab -l'' @ nl) = (bytes, Some e)"
    and "0 < wg st1"
  shows "call w privateKey port host user st
         = (Inr (),
            st1\<lparr>stdout := stdout st1 @ ''[Host] '' @ user @ ''@'' @ host @ nl
                            @ ''[Content] '' @ nl @ Sprintf bytes @ nl,
                stderr := stderr st1 @ ''ERROR: [Host] '' @ host @ ''@'' @ user @ nl
                            @ ''ERROR: [Host] '' @ host @ ''@'' @ user @ nl
                            @ ErrorStr e @ nl,
                trace := trace st1 @ [EvOutput x (''crontab -l'' @ nl), EvCloseSession x,
                                      EvCloseConn c],
                wg := wg st1 - 1\<rparr>)"
proof -
  from NewSession_ok_fields [OF assms(1)] have "err = None" by simp
  with assms show ?thesis
    by (simp add: call_def callBody_def GetCrontab_def Close_def wgDone_def printErr_def
                  printOut_def log_def Let_def)
qed

lemma NewSession_wg: "NewSession w host port user privateKey st = (r, st1) \<Longrightarrow> wg st1 = wg st"
  by (auto simp: NewSession_def Let_def log_def split: sum.splits)


lemma NewSession_result:
  "fst (NewSession w ip port user privateKey st) = fst (NewSession w ip port user privateKey st')"
  by (simp add: NewSession_def Let_def split: sum.splits)

lemma NewSession_closedConns:
  "NewSession w ip port user privateKey st = (r, st1) \<Longrightarrow> closedConns st1 = closedConns st"
  by (auto simp: NewSession_def Let_def log_def closedConns_def isCloseConn_def split: sum.splits)

lemma call_opens:
  assumes "opens w privateKey port d" and "0 < wg st"
  shows "\<exists>st'. call w privateKey port (Host d) (User d) st = (Inr (), st')
               \<and> wg st' = wg st - 1 \<and> closedConns st' = Suc (closedConns st)"
proof -
  obtain sp err st1 where ns: "NewSession w (Host d) port (User d) privateKey st = ((sp, err), st1)"
    by (metis prod.exhaust)
  have "fst (fst (NewSession w (Host d) port (User d) privateKey st)) \<noteq> None"
    using assms(1) NewSession_result [of w "Host d" port "User d" privateKey st init_state]
    by (simp add: opens_def)
  with ns obtain s where sp: "sp = Some s" by auto
  from ns sp NewSession_ok_fields [of w "Host d" port "User d" privateKey st s err st1]
  obtain c x where f: "conn s = Some c" "session s = Some x" by auto
  have wg1: "wg st1 = wg st" by (rule NewSession_wg [OF ns])
  have cc: "closedConns st1 = closedConns st" by (rule NewSession_closedConns [OF ns])
  obtain bytes oe where out: "sessionOutput w x (''crontab -l'' @ nl) = (bytes, oe)"
    by (metis prod.exhaust)
  show ?thesis
  proof (cases oe)
    case None
    with call_success [of w "Host d" port "User d" privateKey st s err st1 x c bytes]
      ns sp f out wg1 cc assms(2)
    show ?thesis by (simp add: closedConns_def isCloseConn_def)
  next
    case (Some e)
    with call_command_failure [of w "Host d" port "User d" privateKey st s err st1 x c bytes e]
      ns sp f out wg1 cc assms(2)
    show ?thesis by (simp add: closedConns_def isCloseConn_def)
  qed
qed

lemma Wait_all_open:
  "(\<forall>d \<in> set pending. opens w privateKey port d) \<Longrightarrow> wg st = int (length pending) \<Longrightarrow>
   \<exists>st'. Wait w privateKey port sched pending st = (Exit 0, st')
         \<and> wg st' = 0 \<and> closedConns st' = closedConns st + length pending"
proof (induction w privateKey port sched pending st rule: Wait.induct)
  case (1 w privateKey port sched pending st)
  show ?case
  proof (cases "pending = []")
    case True
    with "1.prems" show ?thesis by (subst Wait.simps) simp
  next
    case False
    let ?i = "pick sched (length pending)"
    let ?rest = "take ?i pending @ drop (Suc ?i) pending"
    have i: "?i < length pending" using False by (simp add: pick_less)
    then have mem: "pending ! ?i \<in> set pending" by simp
    have pos: "0 < wg st" using "1.prems"(2) False by simp
    from call_opens [OF _ pos, of w privateKey port "pending ! ?i"] mem "1.prems"(1)
    obtain st1 where c: "call w privateKey port (Host (pending ! ?i)) (User (pending ! ?i)) st
                         = (Inr (), st1)"
      and w1: "wg st1 = wg st - 1" and c1: "closedConns st1 = Suc (closedConns st)"
      by blast
    have len: "length ?rest = length pending - 1" using i by simp
    have sub: "\<forall>d \<in> set ?rest. opens w privateKey port d"
      using "1.prems"(1) by (auto dest: in_set_takeD in_set_dropD)
    have w2: "wg st1 = int (length ?rest)" using w1 "1.prems"(2) len False
      by (cases pending) simp_all
    from "1.IH" [OF _ False c [symmetric] refl sub w2] pos
    obtain st' where r: "Wait w privateKey port (tl sched) ?rest st1 = (Exit 0, st')"
      and r0: "wg st' = 0" and rc: "closedConns st' = closedConns st1 + length ?rest"
      by auto
    have "Wait w privateKey port sched pending st = (Exit 0, st')"
      using False pos c r by (subst Wait.simps) simp
    moreover have "closedConns st' = closedConns st + length pending"
      using rc c1 len False by (cases pending) simp_all
    ultimately show ?thesis using r0 by simp
  qed
qed

text \<open>When every destination opens, \<open>main\<close> returns with exit code 0 after every unit has
  run to its end, whatever the order of the scheduler.\<close>

lemma main_all_open:
  assumes "\<not> help_flag fl" and "args fl = [p]" and "fs w p = Inr c"
    and "Decode w c = Inr dests"
    and "(if privateKey_flag fl = []
          then (case homeDir w of
                  Inl err \<Rightarrow> Inl err
                | Inr home \<Rightarrow> Inr (filepathJoin w [home, ''.ssh'', ''id_rsa'']))
          else Inr (privateKey_flag fl)) = Inr k"
    and "\<forall>d \<in> set dests. opens w k (if port_flag fl = [] then defaultPort else port_flag fl) d"
  shows "\<exists>st'. main w fl sched = (Exit 0, st') \<and> wg st' = 0 \<and> closedConns st' = length dests"
proof -
  let ?port = "if port_flag fl = [] then defaultPort else port_flag fl"
  let ?st = "init_state\<lparr>wg := int (length dests)\<rparr>"
  have m: "main w fl sched = Wait w k ?port sched dests ?st"
    using assms(1-5) by (simp add: main_def Let_def)
  have "wg ?st = int (length dests)" by simp
  from Wait_all_open [OF assms(6) this, of sched]
  obtain st' where "Wait w k ?port sched dests ?st = (Exit 0, st')" and "wg st' = 0"
    and "closedConns st' = closedConns ?st + length dests"
    by blast
  with m show ?thesis by (simp add: closedConns_def init_state_def)
qed

subsection \<open>The session\<close>

text \<open>
  C10.  Whenever \<open>NewSession\<close> returns a non-nil error (the key file cannot be read, the
  key does not parse, the dial fails, or the channel cannot be opened), the session pointer
  it returns is nil; a caller that goes on to use that pointer dereferences nil:
  \<open>GetCrontab\<close> and \<open>Close\<close> both panic on it.
\<close>

theorem NewSession_error_nil:
  "NewSession w ip port user privateKey st = ((sp, Some e), st')
   \<Longrightarrow> sp = None
       \<and> fst (GetCrontab w sp st'') = Inl NilPointerDereference
       \<and> fst (Close sp st'') = Inl NilPointerDereference"
  by (auto simp: NewSession_def Let_def GetCrontab_def Close_def split: sum.splits)

text \<open>The refused connection to \<open>h2\<close> is such a case.\<close>

theorem NewSession_error_nil_witness:
  "NewSession demo_world ''h2'' ''22'' ''u2'' ''/home/op/.ssh/id_rsa'' init_state
     = ((None, Some (Error ''dial tcp h2:22: connect: connection refused'')),
        init_state\<lparr>trace := [EvReadFile ''/home/op/.ssh/id_rsa'', EvDial ''h2:22'' ''u2'']\<rparr>)
   \<and> fst (GetCrontab demo_world None init_state) = Inl NilPointerDereference
   \<and> fst (Close None init_state) = Inl NilPointerDereference"
proof -
  have open_fails:
    "NewSession demo_world ''h2'' ''22'' ''u2'' ''/home/op/.ssh/id_rsa'' init_state
     = ((None, Some (Error ''dial tcp h2:22: connect: connection refused'')),
        init_state\<lparr>trace := [EvReadFile ''/home/op/.ssh/id_rsa'', EvDial ''h2:22'' ''u2'']\<rparr>)"
    by (simp add: NewSession_def demo_defs log_def init_state_def)
  from NewSession_error_nil [OF open_fails, where st'' = init_state] open_fails
  show ?thesis by simp
qed

text \<open>
  C1.  The claim: closing is safe when the open failed, and the session is closed on every
  path of the unit.  \<open>Close\<close> does tolerate a session whose fields are nil, but not the nil
  session that \<open>NewSession\<close> returns with an error: for the destination \<open>u2@h2\<close>, whose
  connection is refused, \<open>call\<close> prints the error, goes on, and both \<open>GetCrontab\<close> and the
  deferred \<open>Close\<close> dereference nil.  The unit ends in a panic and nothing is closed.
\<close>

theorem call_failed_open_never_closes:
  "fst (Close (Some s) st) = Inr ()
   \<and> Close None st = (Inl NilPointerDereference, st)
   \<and> call demo_world ''/home/op/.ssh/id_rsa'' ''22'' ''h2'' ''u2'' (init_state\<lparr>wg := 1\<rparr>)
     = (Inl NilPointerDereference,
        \<lparr>stdout = [], stderr = ''ERROR: [Host] h2@u2'' @ nl,
         trace = [EvReadFile ''/home/op/.ssh/id_rsa'', EvDial ''h2:22'' ''u2''], wg = 0\<rparr>)"
  by (simp add: call_defs demo_defs Let_def)

subsection \<open>What a unit writes\<close>

text \<open>
  C2.  The claim: a unit writes either a block to standard output or an error message to
  standard error, never both.  On \<open>h3\<close> the session opens and \<open>crontab -l\<close> fails: \<open>call\<close>
  writes the error lines to standard error and then, having no \<open>return\<close> in the error
  branch, the block (with empty content) to standard output as well.
\<close>

theorem call_command_failure_writes_both_streams:
  "call demo_world ''/home/op/.ssh/id_rsa'' ''22'' ''h3'' ''u3'' (init_state\<lparr>wg := 1\<rparr>)
   = (Inr (),
      \<lparr>stdout = ''[Host] u3@h3'' @ nl @ ''[Content] '' @ nl @ nl,
       stderr = ''ERROR: [Host] h3@u3'' @ nl @ ''ERROR: [Host] h3@u3'' @ nl
                @ ''Process exited with status 1'' @ nl,
       trace = [EvReadFile ''/home/op/.ssh/id_rsa'', EvDial ''h3:22'' ''u3'', EvNewSession 3,
                EvOutput 30 (''crontab -l'' @ nl), EvCloseSession 30, EvCloseConn 3],
       wg = 0\<rparr>)"
  by (simp add: call_defs demo_defs Sprintf_def)

text \<open>
  C3.  The claim: the block of a successful destination holds the exact bytes of the remote
  output.  \<open>call\<close> uses those bytes as a format string; the crontab of \<open>h4\<close> holds a
  percent sign, and what is printed is not what the command returned.
\<close>

theorem call_percent_output_not_verbatim:
  "sessionOutput demo_world 40 (''crontab -l'' @ nl) = (''# keep 50% free'' @ nl, None)
   \<and> call demo_world ''/home/op/.ssh/id_rsa'' ''22'' ''h4'' ''u4'' (init_state\<lparr>wg := 1\<rparr>)
     = (Inr (),
        \<lparr>stdout = ''[Host] u4@h4'' @ nl @ ''[Content] '' @ nl
                  @ ''# keep 50%!f(MISSING)ree'' @ nl @ nl,
         stderr = [],
         trace = [EvReadFile ''/home/op/.ssh/id_rsa'', EvDial ''h4:22'' ''u4'', EvNewSession 4,
                  EvOutput 40 (''crontab -l'' @ nl), EvCloseSession 40, EvCloseConn 4],
         wg = 0\<rparr>)
   \<and> stdout (snd (call demo_world ''/home/op/.ssh/id_rsa'' ''22'' ''h4'' ''u4''
                      (init_state\<lparr>wg := 1\<rparr>)))
     \<noteq> ''[Host] u4@h4'' @ nl @ ''[Content] '' @ nl
        @ fst (sessionOutput demo_world 40 (''crontab -l'' @ nl)) @ nl"
  by code_simp

text \<open>
  C4.  The claim: the error line of a failed destination is \<open>ERROR: [Host] user@host\<close>.
  The three \<open>Fprintf\<close> calls pass \<open>host\<close> before \<open>user\<close>, so the line reads \<open>host@user\<close>
  (the \<open>Printf\<close> of the success block passes them in the other order): neither for the
  refused connection to \<open>h2\<close> nor for the failed command on \<open>h3\<close> does standard error
  contain the destination's \<open>user@host\<close>.
\<close>

theorem call_error_line_swaps_host_and_user:
  "stderr (snd (call demo_world ''/home/op/.ssh/id_rsa'' ''22'' ''h2'' ''u2''
                  (init_state\<lparr>wg := 1\<rparr>)))
     = ''ERROR: [Host] h2@u2'' @ nl
   \<and> \<not> contains (stderr (snd (call demo_world ''/home/op/.ssh/id_rsa'' ''22'' ''h2'' ''u2''
                                  (init_state\<lparr>wg := 1\<rparr>)))) ''u2@h2''
   \<and> stderr (snd (call demo_world ''/home/op/.ssh/id_rsa'' ''22'' ''h3'' ''u3''
                    (init_state\<lparr>wg := 1\<rparr>)))
     = ''ERROR: [Host] h3@u3'' @ nl @ ''ERROR: [Host] h3@u3'' @ nl
       @ ''Process exited with status 1'' @ nl
   \<and> \<not> contains (stderr (snd (call demo_world ''/home/op/.ssh/id_rsa'' ''22'' ''h3'' ''u3''
                                  (init_state\<lparr>wg := 1\<rparr>)))) ''u3@h3''"
  by code_simp

subsection \<open>The runner\<close>

text \<open>
  C5.  The claim: the process ends only after all N units have completed.  With the two
  destinations of \<open>two.json\<close> and a scheduler that runs the unit of \<open>h2\<close> first, that unit
  panics on the nil session and the process ends there: the unit of \<open>h1\<close> never dials, and
  the counter of the wait group is still 1.
\<close>

theorem main_crash_before_all_units_complete:
  "main demo_world (run_with ''two.json'') [1]
   = (Crash NilPointerDereference,
      \<lparr>stdout = [], stderr = ''ERROR: [Host] h2@u2'' @ nl,
       trace = [EvReadFile ''/home/op/.ssh/id_rsa'', EvDial ''h2:22'' ''u2''],
       wg = 1\<rparr>)"
  by code_simp

text \<open>
  C7.  The claim: an error of one destination is printed and swallowed, the exit code stays
  0 and no other unit is stopped.  That holds for a failed command (see C2), not for a
  failed key or connection: in the scenario of the specification, \<open>h1\<close> reachable and \<open>h2\<close>
  not, run in the order of the file, the unit of \<open>h2\<close> panics and the process crashes
  instead of exiting with code 0.
\<close>

theorem main_connection_failure_crashes:
  "main demo_world (run_with ''two.json'') []
   = (Crash NilPointerDereference,
      \<lparr>stdout = ''[Host] u1@h1'' @ nl @ ''[Content] '' @ nl @ ''* * * * * /bin/true'' @ nl @ nl,
       stderr = ''ERROR: [Host] h2@u2'' @ nl,
       trace = [EvReadFile ''/home/op/.ssh/id_rsa'', EvDial ''h1:22'' ''u1'', EvNewSession 1,
                EvOutput 10 (''crontab -l'' @ nl), EvCloseSession 10, EvCloseConn 1,
                EvReadFile ''/home/op/.ssh/id_rsa'', EvDial ''h2:22'' ''u2''],
       wg = 0\<rparr>)"
  by code_simp

subsection \<open>The configuration\<close>







text \<open>
  C9, as it is stated.  The claim: an empty list of destinations gives no output and exit
  code 0.  Between decoding and the fan-out \<open>main\<close> resolves the default key path: with no
  \<open>-i\<close> and a home directory that cannot be found, it prints the error and exits with
  code 1, also for the empty list.
\<close>

theorem empty_config_home_unresolved_exit_1:
  "fs nohome_world ''empty.json'' = Inr ''[]''
   \<and> Decode nohome_world ''[]'' = Inr []
   \<and> main nohome_world (run_with ''empty.json'') []
     = (Exit 1,
        \<lparr>stdout = [], stderr = ''blank output when reading home directory'' @ nl,
         trace = [], wg = 0\<rparr>)"
  by code_simp

text \<open>
  C9, amended.  With exactly one argument and no \<open>-h\<close>, and with a key path (given by
  \<open>-i\<close>, or a home directory that is found): when the configuration decodes to the empty
  list, \<open>main\<close> does no work, writes nothing on either stream and exits with code 0.
\<close>

theorem empty_config_no_work:
  "\<not> help_flag fl \<Longrightarrow> args fl = [p] \<Longrightarrow> fs w p = Inr c \<Longrightarrow> Decode w c = Inr [] \<Longrightarrow>
   privateKey_flag fl \<noteq> [] \<or> (\<exists>home. homeDir w = Inr home) \<Longrightarrow>
   main w fl sched = (Exit 0, \<lparr>stdout = [], stderr = [], trace = [], wg = 0\<rparr>)"
  by (auto simp: main_def init_state_def Let_def)

theorem empty_config_no_work_witness:
  "\<not> help_flag (run_with ''empty.json'') \<and> args (run_with ''empty.json'') = [''empty.json'']
   \<and> fs demo_world ''empty.json'' = Inr ''[]''
   \<and> Decode demo_world ''[]'' = Inr []
   \<and> homeDir demo_world = Inr ''/home/op''
   \<and> main demo_world (run_with ''empty.json'') []
     = (Exit 0, \<lparr>stdout = [], stderr = [], trace = [], wg = 0\<rparr>)"
proof -
  have a: "\<not> help_flag (run_with ''empty.json'')"
    and b: "args (run_with ''empty.json'') = [''empty.json'']"
    by (simp_all add: run_with_def)
  have c: "fs demo_world ''empty.json'' = Inr ''[]''"
    by (simp add: demo_defs)
  have d: "Decode demo_world ''[]'' = Inr []"
    by code_simp
  have e: "homeDir demo_world = Inr ''/home/op''"
    by (simp add: demo_defs)
  then have f: "privateKey_flag (run_with ''empty.json'') \<noteq> []
                \<or> (\<exists>home. homeDir demo_world = Inr home)"
    by simp
  from empty_config_no_work [OF a b c d f, of "[]"] a b c d e
  show ?thesis by simp
qed

end
